theory Spec2Isabelle
  imports Complex_Main
begin

section \<open>Python values and exceptions\<close>

text \<open>
  The exceptions the modelled methods can raise. \<open>KeyError\<close> carries the missing
  key; \<open>Raised\<close> stands for an exception thrown by a collaborator outside the
  modelled files.
\<close>

datatype py_error =
    KeyError string
  | IndexError
  | TypeError
  | AttributeError
  | Raised string

section \<open>Geometry.set_coordinates (trackers2/core/geometry.py)\<close>

text \<open>
  A coordinate is a 3-float tuple. The argument \<open>coordinates\<close> of
  \<open>set_coordinates\<close> is \<open>None\<close>, a list of tuples or a single tuple.
\<close>

type_synonym coord = "real \<times> real \<times> real"

datatype coords_arg = CNone | CList "coord list" | CTuple coord

text \<open>Python truthiness of the argument: \<open>None\<close> and the empty list are falsy,
  a 3-tuple is not empty and so truthy.\<close>

fun coords_truthy :: "coords_arg \<Rightarrow> bool" where
  "coords_truthy CNone = False"
| "coords_truthy (CList cs) = (cs \<noteq> [])"
| "coords_truthy (CTuple c) = True"

text \<open>
  The part of a \<open>Geometry\<close> object the method touches: the points held by
  \<open>coordinate_node\<close> (absent when the constructor returned early), the flag
  \<open>do_publish\<close> and the name of the signal mixin, and the log of the
  \<open>NODE.UPDATED\<close> notifications dispatched so far.
\<close>

record geometry =
  coordinate_node :: "coord list option"
  do_publish :: bool
  name :: string
  dispatched :: "(string \<times> coord list) list"

text \<open>
  \<open>setValues\<close> is the scene graph's own operation on the multi-value field; it is
  taken as a parameter mapping the old points and the new values to the field's
  content afterwards.
\<close>

definition set_coordinates ::
  "(coord list \<Rightarrow> coord list \<Rightarrow> coord list) \<Rightarrow> coords_arg \<Rightarrow> bool \<Rightarrow> geometry
     \<Rightarrow> py_error + geometry" where
  "set_coordinates setValues coordinates do_notify g =
     (if \<not> coords_truthy coordinates then Inr g
      else
        let cs = (case coordinates of CList l \<Rightarrow> l | CTuple c \<Rightarrow> [c] | CNone \<Rightarrow> [])
        in (case coordinate_node g of
              None \<Rightarrow> Inl AttributeError
            | Some old \<Rightarrow>
                let g1 = g\<lparr>coordinate_node := Some (setValues old cs)\<rparr>
                in if do_notify \<and> do_publish g1
                   then Inr (g1\<lparr>dispatched := dispatched g1 @ [(name g1, cs)]\<rparr>)
                   else Inr g1))"

section \<open>SwapEdge.SwapEdge (geomatics/surface/EditSurface.py)\<close>

datatype button_state = DOWN | UP

text \<open>What \<open>event.getButton()\<close>, or \<open>event.getKey()\<close> for a keyboard event, returns.\<close>

datatype action = ESCAPE | BUTTON1 | OtherAction

text \<open>
  \<open>cb.getPickedPoint()\<close> is \<open>None\<close> or a picked point, whose detail is missing, a
  face detail with its face index, or a detail of another type.
\<close>

datatype pick = NoDetail | FaceDetail int | OtherDetail

record swap_event =
  ev_action :: action
  ev_state :: button_state
  ev_picked :: "pick option"

text \<open>
  The command's state: the face indexes picked so far, the meshes of the selected
  objects (the last one is the surface edited), what has been printed, and whether
  the event callback is still registered with the view.
\<close>

record 'm swap_state =
  FaceIndexes :: "int list"
  selection :: "'m list"
  printed :: "string list"
  registered :: bool

definition swap_message :: string where
  "swap_message = ''The edge between these triangles cannot be swappable''"

text \<open>
  The mesh library is a collaborator: \<open>copy\<close> and \<open>swapEdge\<close> are parameters. A
  call of \<open>swapEdge\<close> either raises, leaving the mesh it was called on as it was,
  or returns the mesh with the edge swapped.
\<close>

definition SwapEdge ::
  "('m \<Rightarrow> 'm) \<Rightarrow> ('m \<Rightarrow> int \<Rightarrow> int \<Rightarrow> py_error + 'm) \<Rightarrow> swap_event \<Rightarrow> 'm swap_state
     \<Rightarrow> py_error option \<times> 'm swap_state" where
  "SwapEdge copy swapEdge ev s =
     (if ev_action ev = ESCAPE \<and> ev_state ev = DOWN
      then (None, s\<lparr>registered := False\<rparr>)
      else if ev_action ev = BUTTON1 \<and> ev_state ev = DOWN
      then
        (case ev_picked ev of
           None \<Rightarrow> (None, s)
         | Some NoDetail \<Rightarrow> (Some AttributeError, s)
         | Some OtherDetail \<Rightarrow> (None, s)
         | Some (FaceDetail index) \<Rightarrow>
             let s1 = s\<lparr>FaceIndexes := FaceIndexes s @ [index]\<rparr>
             in if length (FaceIndexes s1) = 2
                then
                  (if selection s1 = [] then (Some IndexError, s1)
                   else
                     let CopyMesh = copy (last (selection s1))
                     in (case swapEdge CopyMesh (FaceIndexes s1 ! 0) (FaceIndexes s1 ! 1) of
                           Inl e \<Rightarrow>
                             (None, s1\<lparr>selection := butlast (selection s1) @ [CopyMesh],
                                       printed := printed s1 @ [swap_message],
                                       FaceIndexes := []\<rparr>)
                         | Inr swapped \<Rightarrow>
                             (None, s1\<lparr>selection := butlast (selection s1) @ [swapped],
                                       FaceIndexes := []\<rparr>)))
                else (None, s1))
      else (None, s))"

section \<open>CurveTracker (project/trackers/curve_tracker.py)\<close>

subsection \<open>Values of a curve dictionary\<close>

text \<open>
  A Python float is a finite number, an infinity or NaN; the finite ones are read as
  reals. \<open>math.inf\<close> is \<open>PosInf\<close>.
\<close>

datatype pyfloat = Fin real | PosInf | NegInf | NaN

text \<open>
  A curve is a dictionary from strings to values of several kinds: \<open>None\<close>,
  floats, ints, strings (\<open>'Type'\<close>) and points (\<open>'PI'\<close>, \<open>'Start'\<close>, \<open>'End'\<close>,
  \<open>'Center'\<close>). The type \<open>'p\<close> of points belongs to the host application.
\<close>

datatype 'p pyval = VNone | VFloat pyfloat | VInt int | VStr string | VPt 'p

type_synonym 'p curve = "string \<Rightarrow> 'p pyval option"

text \<open>Python truthiness, as \<open>not x\<close> tests it.\<close>

fun truthy :: "'p pyval \<Rightarrow> bool" where
  "truthy VNone = False"
| "truthy (VFloat x) = (x \<noteq> Fin 0)"
| "truthy (VInt i) = (i \<noteq> 0)"
| "truthy (VStr s) = (s \<noteq> [])"
| "truthy (VPt p) = True"

text \<open>\<open>d.get(k)\<close>: the value under \<open>k\<close>, or \<open>None\<close> when the key is missing.\<close>

definition dict_get :: "'p curve \<Rightarrow> string \<Rightarrow> 'p pyval" where
  "dict_get d k = (case d k of None \<Rightarrow> VNone | Some v \<Rightarrow> v)"

text \<open>\<open>x <= 0.0\<close>: a comparison of numbers; every comparison with NaN is false, and
  comparing \<open>None\<close>, a string or a point with a float raises \<open>TypeError\<close>.\<close>

fun le_zero :: "'p pyval \<Rightarrow> py_error + bool" where
  "le_zero (VFloat (Fin r)) = Inr (r \<le> 0)"
| "le_zero (VFloat PosInf) = Inr False"
| "le_zero (VFloat NegInf) = Inr True"
| "le_zero (VFloat NaN) = Inr False"
| "le_zero (VInt i) = Inr (i \<le> 0)"
| "le_zero VNone = Inl TypeError"
| "le_zero (VStr s) = Inl TypeError"
| "le_zero (VPt p) = Inl TypeError"

subsection \<open>Collaborators\<close>

text \<open>
  The operations of the host application's vector type that the tracker calls on the
  points \<open>pi_nodes[i].get()\<close> returns and on the points stored in a curve, together
  with the attribute \<open>is_end_node\<close> it reads from them. \<open>Vector(v)\<close> copies
  \<open>v\<close>; with points as values the copy is \<open>v\<close> itself.
\<close>

record 'p vector_api =
  sub :: "'p \<Rightarrow> 'p \<Rightarrow> 'p"
  add :: "'p \<Rightarrow> 'p \<Rightarrow> 'p"
  multiply :: "'p \<Rightarrow> real \<Rightarrow> 'p"
  distanceToPoint :: "'p \<Rightarrow> 'p \<Rightarrow> real"
  is_end_node :: "'p \<Rightarrow> bool"

text \<open>
  The geometry modules \<open>support\<close>, \<open>arc\<close> and \<open>spiral\<close> are imported by the
  tracker and are not among the modelled files; their functions are parameters, and
  each may raise.
\<close>

record 'p kernel =
  get_bearing :: "'p \<Rightarrow> py_error + 'p pyval"
  get_parameters :: "'p curve \<Rightarrow> py_error + 'p curve"
  solve_unk_length :: "'p curve \<Rightarrow> py_error + 'p curve"
  arc_get_points :: "'p curve \<Rightarrow> py_error + 'p list"
  spiral_get_points :: "'p curve \<Rightarrow> py_error + 'p list"

text \<open>
  \<open>MouseState\<close> is a collaborator as well: its \<open>update(arg, pos)\<close> and the flag
  \<open>button1.dragging\<close> the tracker reads are parameters over a state type \<open>'ms\<close>.
  The argument of an event callback is a dictionary.
\<close>

datatype argval = ABool bool | AStr string | APos int int

type_synonym arg = "string \<Rightarrow> argval option"

record 'ms mouse_api =
  update_mouse :: "arg \<Rightarrow> int \<times> int \<Rightarrow> 'ms \<Rightarrow> 'ms"
  button1_dragging :: "'ms \<Rightarrow> bool"

subsection \<open>The tracker\<close>

text \<open>A node tracker of \<open>trackers['Nodes']\<close>: its names, its point and its
  selection state, a string.\<close>

record 'p node_tracker =
  node_names :: "string list"
  node_point :: "'p pyval"
  node_state :: string

text \<open>
  The attributes of a \<open>CurveTracker\<close>. \<open>pi_nodes\<close> holds what \<open>get()\<close> returns
  for each of the control points now; \<open>nodes\<close> is \<open>trackers['Nodes']\<close>. The wire
  trackers and the scene graph groups are visual proxies and are left out.
\<close>

record ('p, 'ms) curve_tracker =
  curve :: "'p curve"
  pi_nodes :: "'p list"
  names :: "string list"
  mouse :: 'ms
  user_dragging :: bool
  is_valid :: bool
  state :: string
  nodes :: "'p node_tracker list"

text \<open>The drag methods and the validator have the body \<open>pass\<close>.\<close>

definition start_drag :: "('p, 'ms) curve_tracker \<Rightarrow> ('p, 'ms) curve_tracker" where
  "start_drag s = s"

definition on_drag :: "argval \<Rightarrow> argval \<Rightarrow> ('p, 'ms) curve_tracker \<Rightarrow> ('p, 'ms) curve_tracker" where
  "on_drag do_rotation modify s = s"

definition end_drag :: "('p, 'ms) curve_tracker \<Rightarrow> ('p, 'ms) curve_tracker" where
  "end_drag s = s"

definition validate_curve ::
  "'p curve list \<Rightarrow> ('p, 'ms) curve_tracker \<Rightarrow> ('p, 'ms) curve_tracker" where
  "validate_curve curves s = s"

text \<open>
  \<open>mouse_event\<close>: the callback for pointer motion. Reading \<open>arg['CtrlDown']\<close> or
  \<open>arg['ShiftDown']\<close> raises \<open>KeyError\<close> when the key is missing; the result
  pairs the exception, if any, with the tracker as the call leaves it.
\<close>

definition mouse_event ::
  "'ms mouse_api \<Rightarrow> arg \<Rightarrow> int \<times> int \<Rightarrow> ('p, 'ms) curve_tracker
     \<Rightarrow> py_error option \<times> ('p, 'ms) curve_tracker" where
  "mouse_event M arg p s =
     (let s1 = s\<lparr>mouse := update_mouse M arg p (mouse s)\<rparr>
      in if button1_dragging M (mouse s1)
         then
           (if user_dragging s1
            then (case arg ''CtrlDown'' of
                    None \<Rightarrow> (Some (KeyError ''CtrlDown''), s1)
                  | Some c \<Rightarrow>
                      (case arg ''ShiftDown'' of
                         None \<Rightarrow> (Some (KeyError ''ShiftDown''), s1)
                       | Some m \<Rightarrow> (None, on_drag c m s1)))
            else (None, (start_drag s1)\<lparr>user_dragging := True\<rparr>))
         else (None, s1))"

text \<open>\<open>button_event\<close>: the callback for pointer buttons.\<close>

definition button_event ::
  "'ms mouse_api \<Rightarrow> arg \<Rightarrow> int \<times> int \<Rightarrow> ('p, 'ms) curve_tracker \<Rightarrow> ('p, 'ms) curve_tracker" where
  "button_event M arg p s =
     (let s1 = s\<lparr>mouse := update_mouse M arg p (mouse s)\<rparr>;
          states = map (\<lambda>v. node_state v = ''SELECTED'') (nodes s1);
          s2 = s1\<lparr>state := (if list_all (\<lambda>b. b) states then ''SELECTED''
                             else if list_ex (\<lambda>b. b) states then ''PARTIAL''
                             else ''UNSELECTED'')\<rparr>
      in if user_dragging s2 \<and> \<not> button1_dragging M (mouse s2)
         then (end_drag s2)\<lparr>user_dragging := False\<rparr>
         else s2)"

text \<open>
  \<open>build_trackers\<close> reads the four points of the curve, makes one node tracker for
  each of \<open>Center\<close>, \<open>Start\<close> and \<open>End\<close> (none for the PI) and then the wire
  trackers, which needs the curve's type and its sample points. The constructor of
  \<open>NodeTracker\<close>, followed by its \<open>update\<close>, is the parameter \<open>NodeTracker\<close>.
\<close>

definition node_suffixes :: "string list" where
  "node_suffixes = [''Center'', ''Start'', ''End'']"

definition build_trackers ::
  "'p kernel \<Rightarrow> (string list \<Rightarrow> 'p pyval \<Rightarrow> 'p node_tracker) \<Rightarrow> ('p, 'ms) curve_tracker
     \<Rightarrow> py_error + ('p, 'ms) curve_tracker" where
  "build_trackers K NodeTracker s =
     (case curve s ''Center'' of
        None \<Rightarrow> Inl (KeyError ''Center'')
      | Some c \<Rightarrow>
     (case curve s ''Start'' of
        None \<Rightarrow> Inl (KeyError ''Start'')
      | Some st \<Rightarrow>
     (case curve s ''End'' of
        None \<Rightarrow> Inl (KeyError ''End'')
      | Some en \<Rightarrow>
     (case curve s ''PI'' of
        None \<Rightarrow> Inl (KeyError ''PI'')
      | Some pi' \<Rightarrow>
          if names s = [] then Inl IndexError
          else
            let result = map (\<lambda>(suffix, pt).
                           NodeTracker (butlast (names s) @ [last (names s) @ ''-'' @ suffix]) pt)
                           (zip node_suffixes [c, st, en])
            in (case curve s ''Type'' of
                  None \<Rightarrow> Inl (KeyError ''Type'')
                | Some t \<Rightarrow>
                    (case (if t = VStr ''Spiral'' then spiral_get_points K (curve s)
                           else arc_get_points K (curve s)) of
                       Inl e \<Rightarrow> Inl e
                     | Inr points \<Rightarrow> Inr (s\<lparr>nodes := result\<rparr>)))))))"

text \<open>
  \<open>_generate_spiral\<close>, in two parts. The first builds the dictionary handed to the
  solver; the two replacement points are named here.
\<close>

definition halfway_start :: "'p vector_api \<Rightarrow> 'p \<Rightarrow> 'p \<Rightarrow> 'p" where
  "halfway_start V pi' start' =
     sub V pi' (multiply V (sub V pi' start') (distanceToPoint V start' pi' / 2))"

definition halfway_end :: "'p vector_api \<Rightarrow> 'p \<Rightarrow> 'p \<Rightarrow> 'p" where
  "halfway_end V pi' end' =
     add V pi' (multiply V (sub V end' pi') (distanceToPoint V end' pi' / 2))"

definition spiral_request ::
  "'p vector_api \<Rightarrow> ('p, 'ms) curve_tracker \<Rightarrow> py_error + 'p curve" where
  "spiral_request V s =
     (if length (pi_nodes s) < 3 then Inl IndexError
      else
        let start0 = pi_nodes s ! 0; pi0 = pi_nodes s ! 1; end0 = pi_nodes s ! 2
        in if \<not> truthy (dict_get (curve s) ''StartRadius'')
              \<or> curve s ''StartRadius'' = Some (VFloat PosInf)
           then
             (case curve s ''End'' of
                None \<Rightarrow> Inl (KeyError ''End'')
              | Some end1 \<Rightarrow>
                  let start1 = (if is_end_node V start0 then halfway_start V pi0 start0
                                else start0)
                  in (case curve s ''EndRadius'' of
                        None \<Rightarrow> Inl (KeyError ''EndRadius'')
                      | Some r \<Rightarrow>
                          Inr [''PI'' \<mapsto> VPt pi0, ''Start'' \<mapsto> VPt start1,
                               ''End'' \<mapsto> end1, ''EndRadius'' \<mapsto> r]))
           else
             (case curve s ''Start'' of
                None \<Rightarrow> Inl (KeyError ''Start'')
              | Some (VPt start1) \<Rightarrow>
                  let end1 = (if is_end_node V start1 then halfway_end V pi0 end0
                              else end0)
                  in (case curve s ''StartRadius'' of
                        None \<Rightarrow> Inl (KeyError ''StartRadius'')
                      | Some r \<Rightarrow>
                          Inr [''PI'' \<mapsto> VPt pi0, ''Start'' \<mapsto> VPt start1,
                               ''End'' \<mapsto> VPt end1, ''StartRadius'' \<mapsto> r])
              | Some other \<Rightarrow> Inl AttributeError))"

text \<open>The test \<open>_curve['TanShort'] <= 0.0 or _curve['TanLong'] <= 0.0\<close>, the second
  operand read only when the first is false.\<close>

definition tangents_infeasible :: "'p curve \<Rightarrow> py_error + bool" where
  "tangents_infeasible c =
     (case c ''TanShort'' of
        None \<Rightarrow> Inl (KeyError ''TanShort'')
      | Some a \<Rightarrow>
          (case le_zero a of
             Inl e \<Rightarrow> Inl e
           | Inr True \<Rightarrow> Inr True
           | Inr False \<Rightarrow>
               (case c ''TanLong'' of
                  None \<Rightarrow> Inl (KeyError ''TanLong'')
                | Some b \<Rightarrow> le_zero b)))"

definition generate_spiral ::
  "'p vector_api \<Rightarrow> 'p kernel \<Rightarrow> ('p, 'ms) curve_tracker \<Rightarrow> py_error + 'p curve" where
  "generate_spiral V K s =
     (case spiral_request V s of
        Inl e \<Rightarrow> Inl e
      | Inr request \<Rightarrow>
          (case solve_unk_length K request of
             Inl e \<Rightarrow> Inl e
           | Inr solved \<Rightarrow>
               (case tangents_infeasible solved of
                  Inl e \<Rightarrow> Inl e
                | Inr bad \<Rightarrow> Inr (if bad then curve s else solved))))"

definition generate_arc ::
  "'p vector_api \<Rightarrow> 'p kernel \<Rightarrow> ('p, 'ms) curve_tracker \<Rightarrow> py_error + 'p curve" where
  "generate_arc V K s =
     (if length (pi_nodes s) < 3 then Inl IndexError
      else
        let start0 = pi_nodes s ! 0; pi0 = pi_nodes s ! 1; end0 = pi_nodes s ! 2
        in (case get_bearing K (sub V pi0 start0) of
              Inl e \<Rightarrow> Inl e
            | Inr bearing_in \<Rightarrow>
                (case get_bearing K (sub V end0 pi0) of
                   Inl e \<Rightarrow> Inl e
                 | Inr bearing_out \<Rightarrow>
                     (case curve s ''Radius'' of
                        None \<Rightarrow> Inl (KeyError ''Radius'')
                      | Some r \<Rightarrow>
                          get_parameters K
                            [''BearingIn'' \<mapsto> bearing_in, ''BearingOut'' \<mapsto> bearing_out,
                             ''PI'' \<mapsto> VPt pi0, ''Radius'' \<mapsto> r]))))"

text \<open>
  \<open>update\<close>: an exception of the solve leaves the tracker as it was; one of
  \<open>build_trackers\<close> comes after the new curve has been stored.
\<close>

definition update ::
  "'p vector_api \<Rightarrow> 'p kernel \<Rightarrow> (string list \<Rightarrow> 'p pyval \<Rightarrow> 'p node_tracker)
     \<Rightarrow> ('p, 'ms) curve_tracker \<Rightarrow> py_error option \<times> ('p, 'ms) curve_tracker" where
  "update V K NodeTracker s =
     (case curve s ''Type'' of
        None \<Rightarrow> (Some (KeyError ''Type''), s)
      | Some t \<Rightarrow>
          (case (if t = VStr ''Spiral'' then generate_spiral V K s else generate_arc V K s) of
             Inl e \<Rightarrow> (Some e, s)
           | Inr c \<Rightarrow>
               let s1 = s\<lparr>curve := c\<rparr>
               in (case build_trackers K NodeTracker s1 of
                     Inl e \<Rightarrow> (Some e, s1)
                   | Inr s2 \<Rightarrow> (None, s2))))"

subsection \<open>Event delivery\<close>





section \<open>Example data\<close>

text \<open>
  A concrete vector type for the examples: a position with the flag
  \<open>is_end_node\<close>. Differences, sums and multiples are fresh vectors, whose flag is
  off; the distance is the Euclidean one.
\<close>

type_synonym fc_point = "coord \<times> bool"

definition fc_vector :: "fc_point vector_api" where
  "fc_vector =
     \<lparr>sub = (\<lambda>((a, b, c), _) ((d, e, f), _). ((a - d, b - e, c - f), False)),
      add = (\<lambda>((a, b, c), _) ((d, e, f), _). ((a + d, b + e, c + f), False)),
      multiply = (\<lambda>((a, b, c), _) k. ((a * k, b * k, c * k), False)),
      distanceToPoint = (\<lambda>((a, b, c), _) ((d, e, f), _).
         sqrt ((a - d)\<^sup>2 + (b - e)\<^sup>2 + (c - f)\<^sup>2)),
      is_end_node = snd\<rparr>"

text \<open>A mouse state that is just the flag \<open>button1.dragging\<close>, set by an event
  whose \<open>State\<close> is \<open>DOWN\<close> and cleared by one whose \<open>State\<close> is \<open>UP\<close>.\<close>

definition flag_mouse :: "bool mouse_api" where
  "flag_mouse =
     \<lparr>update_mouse = (\<lambda>a p m. a ''State'' = Some (AStr ''DOWN'') \<or> (m \<and> a ''State'' \<noteq> Some (AStr ''UP''))),
      button1_dragging = (\<lambda>m. m)\<rparr>"

text \<open>A spiral with a known end radius, its three control points, none of them an
  end node, and a kernel whose spiral solve returns a negative short tangent.\<close>

definition ex_spiral :: "fc_point curve" where
  "ex_spiral =
     [''Type'' \<mapsto> VStr ''Spiral'', ''PI'' \<mapsto> VPt ((1, 0, 0), False),
      ''Start'' \<mapsto> VPt ((0, 0, 0), False), ''End'' \<mapsto> VPt ((1, 1, 0), False),
      ''EndRadius'' \<mapsto> VFloat (Fin 100), ''TanShort'' \<mapsto> VFloat (Fin 1),
      ''TanLong'' \<mapsto> VFloat (Fin 1)]"

definition ex_nodes :: "string \<Rightarrow> string \<Rightarrow> string \<Rightarrow> fc_point node_tracker list" where
  "ex_nodes a b c =
     [\<lparr>node_names = [''Center''], node_point = VNone, node_state = a\<rparr>,
      \<lparr>node_names = [''Start''], node_point = VNone, node_state = b\<rparr>,
      \<lparr>node_names = [''End''], node_point = VNone, node_state = c\<rparr>]"

definition ex_tracker :: "(fc_point, bool) curve_tracker" where
  "ex_tracker =
     \<lparr>curve = ex_spiral,
      pi_nodes = [((0, 0, 0), False), ((1, 0, 0), False), ((1, 1, 0), False)],
      names = [''Curve''], mouse = False, user_dragging = False, is_valid = True,
      state = ''UNSELECTED'',
      nodes = ex_nodes ''UNSELECTED'' ''UNSELECTED'' ''UNSELECTED''\<rparr>"

definition ex_kernel :: "fc_point kernel" where
  "ex_kernel =
     \<lparr>get_bearing = (\<lambda>v. Inr (VFloat (Fin 0))),
      get_parameters = (\<lambda>c. Inr c),
      solve_unk_length = (\<lambda>c. Inr (c(''TanShort'' \<mapsto> VFloat (Fin (- 1)),
                                       ''TanLong'' \<mapsto> VFloat (Fin 5)))),
      arc_get_points = (\<lambda>c. Inr []),
      spiral_get_points = (\<lambda>c. Inr [])\<rparr>"

definition ex_NodeTracker :: "string list \<Rightarrow> fc_point pyval \<Rightarrow> fc_point node_tracker" where
  "ex_NodeTracker ns pt = \<lparr>node_names = ns, node_point = pt, node_state = ''UNSELECTED''\<rparr>"

text \<open>A tracker whose start point is an end node, and two arcs with tangents of 60
  whose PIs are 100 apart.\<close>

definition ex_end_node :: "(fc_point, bool) curve_tracker" where
  "ex_end_node =
     ex_tracker\<lparr>pi_nodes := [((0, 0, 0), True), ((1, 0, 0), False), ((1, 1, 0), False)]\<rparr>"

definition ex_arc0 :: "fc_point curve" where
  "ex_arc0 =
     [''Type'' \<mapsto> VStr ''Curve'', ''PI'' \<mapsto> VPt ((0, 0, 0), False),
      ''Radius'' \<mapsto> VFloat (Fin 50), ''Tangent'' \<mapsto> VFloat (Fin 60)]"

definition ex_arc1 :: "fc_point curve" where
  "ex_arc1 =
     [''Type'' \<mapsto> VStr ''Curve'', ''PI'' \<mapsto> VPt ((100, 0, 0), False),
      ''Radius'' \<mapsto> VFloat (Fin 50), ''Tangent'' \<mapsto> VFloat (Fin 60)]"

text \<open>
  A tracker as its constructor leaves it (idle, \<open>is_valid\<close> true) for the second
  arc, between the fixed start \<open>(0, 0, 0)\<close> and the fixed end \<open>(200, 0, 0)\<close>.
\<close>

definition ex_arc_tracker :: "(fc_point, bool) curve_tracker" where
  "ex_arc_tracker =
     \<lparr>curve = ex_arc1,
      pi_nodes = [((0, 0, 0), True), ((100, 0, 0), False), ((200, 0, 0), True)],
      names = [''Curve''], mouse = False, user_dragging = False, is_valid = True,
      state = ''UNSELECTED'',
      nodes = ex_nodes ''UNSELECTED'' ''UNSELECTED'' ''UNSELECTED''\<rparr>"

section \<open>Properties\<close>

subsection \<open>CurveTracker.update\<close>

lemma build_trackers_frame:
  "build_trackers K N s = Inr s2 \<Longrightarrow> s2 = s\<lparr>nodes := nodes s2\<rparr> \<and> length (nodes s2) = 3"
  by (auto simp: build_trackers_def node_suffixes_def Let_def split: option.splits if_splits sum.splits)

lemma update_curve_cases:
  "curve (snd (update V K N s)) = curve s \<or>
   (\<exists>c. (if curve s ''Type'' = Some (VStr ''Spiral'') then generate_spiral V K s else generate_arc V K s) = Inr c
      \<and> curve (snd (update V K N s)) = c)"
  by (auto simp: update_def Let_def split: option.splits sum.splits dest!: build_trackers_frame)
     (metis curve_tracker.select_convs(1) curve_tracker.surjective curve_tracker.update_convs(1,8))+

text \<open>
  C1. For a spiral curve, when the solve invoked by \<open>update\<close> returns a result whose
  \<open>TanShort\<close> or \<open>TanLong\<close> is at most zero, the curve held by the tracker after
  \<open>update\<close> is the curve held before: the result of the solve is not installed
  (also when the test itself raises, since the assignment is then not reached).
\<close>

theorem update_spiral_infeasible_keeps_curve:
  assumes "curve s ''Type'' = Some (VStr ''Spiral'')"
    and "spiral_request V s = Inr request"
    and "solve_unk_length K request = Inr solved"
    and "(\<exists>a. solved ''TanShort'' = Some a \<and> le_zero a = Inr True) \<or>
         (\<exists>b. solved ''TanLong'' = Some b \<and> le_zero b = Inr True)"
  shows "curve (snd (update V K NodeTracker s)) = curve s"
proof -
  have "generate_spiral V K s = Inr c \<Longrightarrow> c = curve s" for c
    using assms(2,3,4)
    by (auto simp: generate_spiral_def tangents_infeasible_def split: sum.splits option.splits bool.splits if_splits)
  then show ?thesis
    using update_curve_cases [of V K NodeTracker s] assms(1) by auto
qed

lemma ex_request:
  "spiral_request fc_vector ex_tracker =
     Inr [''PI'' \<mapsto> VPt ((1, 0, 0), False), ''Start'' \<mapsto> VPt ((0, 0, 0), False),
          ''End'' \<mapsto> VPt ((1, 1, 0), False), ''EndRadius'' \<mapsto> VFloat (Fin 100)]"
  by (simp add: spiral_request_def ex_tracker_def ex_spiral_def dict_get_def fc_vector_def Let_def)

theorem update_spiral_infeasible_keeps_curve_witness:
  "curve ex_tracker ''Type'' = Some (VStr ''Spiral'') \<and>
   curve (snd (update fc_vector ex_kernel ex_NodeTracker ex_tracker)) = curve ex_tracker"
proof -
  let ?req = "[''PI'' \<mapsto> VPt ((1, 0, 0), False), ''Start'' \<mapsto> VPt ((0::real, 0::real, 0::real), False),
          ''End'' \<mapsto> VPt ((1, 1, 0), False), ''EndRadius'' \<mapsto> VFloat (Fin 100)]"
  let ?res = "?req(''TanShort'' \<mapsto> VFloat (Fin (- 1)), ''TanLong'' \<mapsto> VFloat (Fin 5))"
  have t: "curve ex_tracker ''Type'' = Some (VStr ''Spiral'')"
    by (simp add: ex_tracker_def ex_spiral_def)
  have s: "solve_unk_length ex_kernel ?req = Inr ?res"
    by (simp add: ex_kernel_def)
  have b: "(\<exists>a. ?res ''TanShort'' = Some a \<and> le_zero a = Inr True) \<or>
           (\<exists>b. ?res ''TanLong'' = Some b \<and> le_zero b = Inr True)"
    by simp
  show ?thesis
    using t update_spiral_infeasible_keeps_curve [OF t ex_request s b] by simp
qed


subsection \<open>Repeating update\<close>

text \<open>The solve reads the curve and the control points only, and \<open>build_trackers\<close>
  the curve and the names.\<close>

lemma generate_spiral_cong:
  "curve s1 = curve s \<Longrightarrow> pi_nodes s1 = pi_nodes s \<Longrightarrow> generate_spiral V K s1 = generate_spiral V K s"
  by (simp add: generate_spiral_def spiral_request_def Let_def
        cong: sum.case_cong option.case_cong pyval.case_cong if_cong)

lemma generate_arc_cong:
  "curve s1 ''Radius'' = curve s ''Radius'' \<Longrightarrow> pi_nodes s1 = pi_nodes s \<Longrightarrow> generate_arc V K s1 = generate_arc V K s"
  by (simp add: generate_arc_def Let_def cong: sum.case_cong option.case_cong)

lemma build_trackers_cong:
  "curve s1 = curve s \<Longrightarrow> names s1 = names s \<Longrightarrow> build_trackers K N s = Inr s2 \<Longrightarrow>
   build_trackers K N s1 = Inr (s1\<lparr>nodes := nodes s2\<rparr>)"
  by (auto simp: build_trackers_def Let_def split: option.splits if_splits sum.splits)

lemma update_result:
  assumes "update V K N s = (None, s1)"
  shows "\<exists>t c. curve s ''Type'' = Some t \<and>
          (if t = VStr ''Spiral'' then generate_spiral V K s else generate_arc V K s) = Inr c \<and>
          build_trackers K N (s\<lparr>curve := c\<rparr>) = Inr s1"
  using assms
  by (auto simp: update_def Let_def split: option.splits sum.splits if_splits)

text \<open>
  A second \<open>update\<close> returns the tracker of the first whenever the solve, run on
  the tracker the first one left, gives back the curve stored there.
\<close>

lemma update_fixpoint:
  assumes "update V K N s = (None, s1)"
    and "curve s1 ''Type'' = Some t"
    and "(if t = VStr ''Spiral'' then generate_spiral V K s1 else generate_arc V K s1) = Inr (curve s1)"
  shows "update V K N s1 = (None, s1)"
proof -
  obtain t0 c where b: "build_trackers K N (s\<lparr>curve := c\<rparr>) = Inr s1"
    using update_result [OF assms(1)] by blast
  have f: "s1 = (s\<lparr>curve := c\<rparr>)\<lparr>nodes := nodes s1\<rparr>"
    using build_trackers_frame [OF b] by simp
  have "build_trackers K N s1 = Inr (s1\<lparr>nodes := nodes s1\<rparr>)"
    by (rule build_trackers_cong [OF _ _ b]) (use f in \<open>(metis curve_tracker.select_convs curve_tracker.surjective curve_tracker.update_convs)+\<close>)
  then have "build_trackers K N s1 = Inr s1" by simp
  then show ?thesis
    using assms(2,3) by (simp add: update_def Let_def)
qed

text \<open>
  For an arc this is the case when \<open>arc.get_parameters\<close> returned a curve that is
  not a spiral and has the radius it was given.
\<close>

lemma update_twice_arc:
  assumes "update V K N s = (None, s1)"
    and "curve s ''Type'' = Some t" and "t \<noteq> VStr ''Spiral''"
    and "curve s1 ''Type'' = Some t1" and "t1 \<noteq> VStr ''Spiral''"
    and "curve s1 ''Radius'' = curve s ''Radius''"
  shows "update V K N s1 = (None, s1)"
proof -
  obtain c where g: "generate_arc V K s = Inr c" and b: "build_trackers K N (s\<lparr>curve := c\<rparr>) = Inr s1"
    using update_result [OF assms(1)] assms(2,3) by auto
  have f: "s1 = (s\<lparr>curve := c\<rparr>)\<lparr>nodes := nodes s1\<rparr>"
    using build_trackers_frame [OF b] by simp
  have c: "curve s1 = c" and p: "pi_nodes s1 = pi_nodes s"
    by (subst f, simp)+
  have "generate_arc V K s1 = Inr (curve s1)"
    using generate_arc_cong [OF assms(6) p, of V K] g c by simp
  then show ?thesis
    using update_fixpoint [OF assms(1) assms(4)] assms(5) by simp
qed

subsection \<open>CurveTracker._generate_spiral: the request\<close>

text \<open>
  C2, as the code has it. With \<open>EndRadius\<close> the known parameter (\<open>StartRadius\<close>
  falsy or infinite), the start point handed to the solver is the halfway point
  when the start control point is an end node, and the start control point itself
  when it is not: the test is the opposite of the one the comment above it
  describes.
\<close>

theorem spiral_request_start_replaced_iff_end_node:
  assumes "\<not> truthy (dict_get (curve s) ''StartRadius'')
           \<or> curve s ''StartRadius'' = Some (VFloat PosInf)"
    and "spiral_request V s = Inr request"
  shows "request ''Start'' =
           Some (VPt (if is_end_node V (pi_nodes s ! 0)
                      then halfway_start V (pi_nodes s ! 1) (pi_nodes s ! 0)
                      else pi_nodes s ! 0))"
  using assms
  by (auto simp: spiral_request_def Let_def split: if_splits option.splits)

text \<open>
  The code at a start point that is not an end node (\<open>ex_tracker\<close>) and at one that
  is (\<open>ex_end_node\<close>): the first is handed to the solver as it is, though the
  halfway point \<open>(1/2, 0, 0)\<close> differs from it; the second is replaced by the
  halfway point.
\<close>

lemma ex_end_node_request:
  "spiral_request fc_vector ex_end_node =
     Inr [''PI'' \<mapsto> VPt ((1, 0, 0), False), ''Start'' \<mapsto> VPt ((1 / 2, 0, 0), False),
          ''End'' \<mapsto> VPt ((1, 1, 0), False), ''EndRadius'' \<mapsto> VFloat (Fin 100)]"
  by (simp add: spiral_request_def ex_tracker_def ex_end_node_def ex_spiral_def dict_get_def
        fc_vector_def Let_def halfway_start_def)

theorem spiral_request_start_not_replaced:
  "\<not> is_end_node fc_vector (pi_nodes ex_tracker ! 0) \<and>
   halfway_start fc_vector (pi_nodes ex_tracker ! 1) (pi_nodes ex_tracker ! 0)
     = ((1 / 2, 0, 0), False) \<and>
   spiral_request fc_vector ex_tracker =
     Inr [''PI'' \<mapsto> VPt ((1, 0, 0), False), ''Start'' \<mapsto> VPt ((0, 0, 0), False),
          ''End'' \<mapsto> VPt ((1, 1, 0), False), ''EndRadius'' \<mapsto> VFloat (Fin 100)] \<and>
   is_end_node fc_vector (pi_nodes ex_end_node ! 0) \<and>
   spiral_request fc_vector ex_end_node =
     Inr [''PI'' \<mapsto> VPt ((1, 0, 0), False), ''Start'' \<mapsto> VPt ((1 / 2, 0, 0), False),
          ''End'' \<mapsto> VPt ((1, 1, 0), False), ''EndRadius'' \<mapsto> VFloat (Fin 100)]"
proof -
  have f: "\<not> truthy (dict_get (curve ex_tracker) ''StartRadius'')
           \<or> curve ex_tracker ''StartRadius'' = Some (VFloat PosInf)"
    by (simp add: ex_tracker_def ex_spiral_def dict_get_def)
  have h: "halfway_start fc_vector (pi_nodes ex_tracker ! 1) (pi_nodes ex_tracker ! 0)
             = ((1 / 2, 0, 0), False)"
    by (simp add: ex_tracker_def fc_vector_def halfway_start_def)
  have n: "\<not> is_end_node fc_vector (pi_nodes ex_tracker ! 0)"
    by (simp add: ex_tracker_def fc_vector_def)
  have e: "is_end_node fc_vector (pi_nodes ex_end_node ! 0)"
    by (simp add: ex_tracker_def ex_end_node_def fc_vector_def)
  show ?thesis
    using spiral_request_start_replaced_iff_end_node [OF f ex_request] h n e
      ex_request ex_end_node_request
    by simp
qed

text \<open>
  C9. A falsy \<open>StartRadius\<close> (\<open>None\<close>, \<open>0.0\<close>, \<open>0\<close>, an empty string) builds the
  same request as a curve with no \<open>StartRadius\<close> at all, and that request carries
  the curve's \<open>EndRadius\<close> as its known parameter and no \<open>StartRadius\<close>.
\<close>

theorem falsy_start_radius_selects_end_radius:
  assumes "\<not> truthy v"
  shows "spiral_request V (s\<lparr>curve := (curve s)(''StartRadius'' \<mapsto> v)\<rparr>) =
           spiral_request V (s\<lparr>curve := (curve s)(''StartRadius'' := None)\<rparr>) \<and>
         (\<forall>request. spiral_request V (s\<lparr>curve := (curve s)(''StartRadius'' \<mapsto> v)\<rparr>) = Inr request \<longrightarrow>
            request ''EndRadius'' = curve s ''EndRadius'' \<and> request ''EndRadius'' \<noteq> None \<and>
            request ''StartRadius'' = None)"
  using assms
  by (auto simp: spiral_request_def dict_get_def Let_def split: option.splits)

theorem falsy_start_radius_selects_end_radius_witness:
  "\<not> truthy (VFloat (Fin 0) :: fc_point pyval) \<and>
   spiral_request fc_vector (ex_tracker\<lparr>curve := (curve ex_tracker)(''StartRadius'' \<mapsto> VFloat (Fin 0))\<rparr>) =
     Inr [''PI'' \<mapsto> VPt ((1, 0, 0), False), ''Start'' \<mapsto> VPt ((0, 0, 0), False),
          ''End'' \<mapsto> VPt ((1, 1, 0), False), ''EndRadius'' \<mapsto> VFloat (Fin 100)]"
proof -
  have f: "\<not> truthy (VFloat (Fin 0) :: fc_point pyval)" by simp
  have e: "ex_tracker\<lparr>curve := (curve ex_tracker)(''StartRadius'' := None)\<rparr> = ex_tracker"
    by (simp add: ex_tracker_def ex_spiral_def)
  show ?thesis
    using f falsy_start_radius_selects_end_radius [OF f, of fc_vector ex_tracker] ex_request e
    by simp
qed

subsection \<open>Selection and dragging\<close>

text \<open>
  C5. After \<open>button_event\<close>, for a tracker with at least one node tracker (it has
  three, see \<open>build_trackers_frame\<close>): the state is \<open>SELECTED\<close> if every node
  tracker is \<open>SELECTED\<close>, \<open>PARTIAL\<close> if some are and some are not, and
  \<open>UNSELECTED\<close> if none is.
\<close>

theorem button_event_aggregate_state:
  assumes "nodes s \<noteq> []"
  shows "((\<forall>v \<in> set (nodes s). node_state v = ''SELECTED'') \<longrightarrow>
            state (button_event M a p s) = ''SELECTED'') \<and>
         ((\<exists>v \<in> set (nodes s). node_state v = ''SELECTED'') \<and>
          (\<exists>v \<in> set (nodes s). node_state v \<noteq> ''SELECTED'') \<longrightarrow>
            state (button_event M a p s) = ''PARTIAL'') \<and>
         ((\<forall>v \<in> set (nodes s). node_state v \<noteq> ''SELECTED'') \<longrightarrow>
            state (button_event M a p s) = ''UNSELECTED'')"
  using assms
  by (cases "nodes s") (auto simp: button_event_def end_drag_def Let_def list_all_iff list_ex_iff)

theorem button_event_aggregate_state_witness:
  "state (button_event flag_mouse Map.empty (0, 0)
      (ex_tracker\<lparr>nodes := ex_nodes ''SELECTED'' ''SELECTED'' ''SELECTED''\<rparr>)) = ''SELECTED'' \<and>
   state (button_event flag_mouse Map.empty (0, 0)
      (ex_tracker\<lparr>nodes := ex_nodes ''SELECTED'' ''UNSELECTED'' ''SELECTED''\<rparr>)) = ''PARTIAL'' \<and>
   state (button_event flag_mouse Map.empty (0, 0)
      (ex_tracker\<lparr>nodes := ex_nodes ''UNSELECTED'' ''UNSELECTED'' ''UNSELECTED''\<rparr>)) = ''UNSELECTED''"
proof -
  have n: "nodes (ex_tracker\<lparr>nodes := ex_nodes x y z\<rparr>) \<noteq> []" for x y z
    by (simp add: ex_nodes_def)
  show ?thesis
    using button_event_aggregate_state [OF n, of "''SELECTED''" "''SELECTED''" "''SELECTED''" flag_mouse Map.empty "(0, 0)"]
          button_event_aggregate_state [OF n, of "''SELECTED''" "''UNSELECTED''" "''SELECTED''" flag_mouse Map.empty "(0, 0)"]
          button_event_aggregate_state [OF n, of "''UNSELECTED''" "''UNSELECTED''" "''UNSELECTED''" flag_mouse Map.empty "(0, 0)"]
    by (simp add: ex_nodes_def)
qed


text \<open>
  C6, as the code has it. \<open>mouse_event\<close> leaves \<open>user_dragging\<close> set exactly when
  it was set before or the mouse state reports \<open>button1.dragging\<close> after its
  update; the selection states of the node trackers are not consulted.
\<close>

theorem mouse_event_user_dragging:
  "user_dragging (snd (mouse_event M a p s)) =
     (user_dragging s \<or> button1_dragging M (update_mouse M a p (mouse s)))"
  by (auto simp: mouse_event_def start_drag_def on_drag_def Let_def split: option.splits)

text \<open>
  C6 fails as stated: with no node tracker \<open>SELECTED\<close>, a motion event with the
  button dragging takes the tracker from idle to dragging.
\<close>

theorem mouse_event_drag_without_selection:
  "\<not> user_dragging ex_tracker \<and>
   ''SELECTED'' \<notin> set (map node_state (nodes ex_tracker)) \<and>
   user_dragging (snd (mouse_event flag_mouse [''State'' \<mapsto> AStr ''DOWN''] (0, 0) ex_tracker))"
  by (simp add: mouse_event_def start_drag_def Let_def ex_tracker_def ex_nodes_def flag_mouse_def)






subsection \<open>The chain validator\<close>

lemma ex_arc_distance:
  "distanceToPoint fc_vector ((0, 0, 0), False) ((100, 0, 0), False) = 100"
  by (simp add: fc_vector_def real_sqrt_unique)

text \<open>
  C3. The code at two adjacent arcs with tangents of 60 each and PIs 100 apart, so
  that the sum of the tangents exceeds the distance: \<open>_validate_curve\<close>, whose
  body is \<open>pass\<close>, examines no pair, and after it the tracker still reports a
  valid chain; neither curve has been marked failing.
\<close>

theorem validate_curve_exceeding_pair_unmarked:
  "ex_arc0 ''Tangent'' = Some (VFloat (Fin 60)) \<and>
   ex_arc1 ''Tangent'' = Some (VFloat (Fin 60)) \<and>
   ex_arc0 ''PI'' = Some (VPt ((0, 0, 0), False)) \<and>
   ex_arc1 ''PI'' = Some (VPt ((100, 0, 0), False)) \<and>
   (60::real) + 60 > distanceToPoint fc_vector ((0, 0, 0), False) ((100, 0, 0), False) \<and>
   is_valid (validate_curve [ex_arc0, ex_arc1] ex_arc_tracker) \<and>
   validate_curve [ex_arc0, ex_arc1] ex_arc_tracker = ex_arc_tracker"
  by (simp add: ex_arc_distance ex_arc0_def ex_arc1_def validate_curve_def ex_arc_tracker_def)

subsection \<open>Geometry.set_coordinates\<close>

text \<open>
  C10. Calling \<open>set_coordinates\<close> with \<open>None\<close> or with an empty list returns
  normally with the geometry unchanged: the points of the coordinate node are the
  same and no notification has been dispatched, whatever the state before and
  whatever \<open>do_notify\<close> is.
\<close>

theorem set_coordinates_empty_noop:
  "set_coordinates setValues CNone do_notify g = Inr g \<and>
   set_coordinates setValues (CList []) do_notify g = Inr g"
  by (simp add: set_coordinates_def)

subsection \<open>SwapEdge\<close>

text \<open>
  C8. When the second triangle is picked and the mesh library's \<open>swapEdge\<close> raises
  on the copy, the handler returns normally, prints the message, clears the picked
  indexes and assigns to the surface the copy of its own mesh, unmodified; the other
  selected objects are untouched.
\<close>

theorem SwapEdge_failure_noop:
  assumes "ev_action ev = BUTTON1" and "ev_state ev = DOWN"
    and "ev_picked ev = Some (FaceDetail j)"
    and "FaceIndexes s = [i]"
    and "selection s \<noteq> []"
    and "swapEdge (copy (last (selection s))) i j = Inl e"
  shows "SwapEdge copy swapEdge ev s =
           (None, s\<lparr>selection := butlast (selection s) @ [copy (last (selection s))],
                    printed := printed s @ [swap_message],
                    FaceIndexes := []\<rparr>)"
  using assms by (simp add: SwapEdge_def Let_def)

theorem SwapEdge_failure_noop_witness:
  "SwapEdge (\<lambda>m. m) (\<lambda>m a b. Inl (Raised ''swapEdge''))
     \<lparr>ev_action = BUTTON1, ev_state = DOWN, ev_picked = Some (FaceDetail 7)\<rparr>
     \<lparr>FaceIndexes = [3], selection = [[1, 2, 3 :: nat]], printed = [], registered = True\<rparr>
   = (None, \<lparr>FaceIndexes = [], selection = [[1, 2, 3]], printed = [swap_message],
             registered = True\<rparr>)"
  using SwapEdge_failure_noop
    [of "\<lparr>ev_action = BUTTON1, ev_state = DOWN, ev_picked = Some (FaceDetail 7)\<rparr>" 7
        "\<lparr>FaceIndexes = [3], selection = [[1, 2, 3 :: nat]], printed = [], registered = True\<rparr>" 3
        "\<lambda>m a b. Inl (Raised ''swapEdge'')" "\<lambda>m. m" "Raised ''swapEdge''"]
  by simp

end
